theory Spec2Isabelle
  imports Main "HOL-Library.Word"
begin

section \<open>Common types\<close>

text \<open>
  \<open>int64_t\<close> (C++) and \<open>int64\<close> (Go) are 64-bit words; \<open>sint\<close> reads the signed
  value, and \<open>+\<close> wraps around as the machine addition does.
\<close>

type_synonym int64 = "64 word"

section \<open>The delete set (cpp/src/storage/deleteset.cpp)\<close>

text \<open>
  \<open>pk_type\<close> is the key of the delete set: a variant over the two supported physical
  types of the primary column. The set itself is an unordered map from keys to the
  vector of versions recorded for the key.
\<close>

datatype pk_type = PkInt64 int64 | PkString string

type_synonym delete_set = "pk_type \<rightharpoonup> int64 list"

datatype cpp_fault = NullPointer | OutOfBounds | BadCast | NotImplemented

text \<open>
  \<open>version_col_->Value(i)\<close>. The visitor holds the version column as a pointer that
  is null when the batch has no such column; the read is unchecked in C++, so a null
  pointer or an index past the end is a fault of the program, written here as a value.
\<close>

definition version_Value :: "int64 list option \<Rightarrow> nat \<Rightarrow> cpp_fault + int64" where
  "version_Value version_col i =
     (case version_col of
        None \<Rightarrow> Inl NullPointer
      | Some vs \<Rightarrow> if i < length vs then Inr (vs ! i) else Inl OutOfBounds)"

text \<open>
  \<open>DeleteSetVisitor::Visit(const arrow::Int64Array&)\<close>: the loop over the row index
  \<open>i\<close>, with the map threaded through.
\<close>

function Visit_Int64Array ::
  "int64 list option \<Rightarrow> int64 list \<Rightarrow> nat \<Rightarrow> delete_set \<Rightarrow> cpp_fault + delete_set" where
  "Visit_Int64Array version_col array i delete_set =
     (if i < length array then
        (let value = PkInt64 (array ! i) in
         case version_Value version_col i of
           Inl f \<Rightarrow> Inl f
         | Inr v \<Rightarrow>
             (case delete_set value of
                Some vs \<Rightarrow> Visit_Int64Array version_col array (Suc i) (delete_set(value \<mapsto> vs @ [v]))
              | None \<Rightarrow> Visit_Int64Array version_col array (Suc i) (delete_set(value \<mapsto> [v]))))
      else Inr delete_set)"
  by pat_completeness auto
termination
  by (relation "measure (\<lambda>(vc, array, i, ds). length array - i)") auto

declare Visit_Int64Array.simps [simp del]

text \<open>
  \<open>DeleteSetVisitor::Visit(const arrow::StringArray&)\<close>. In the branch of a key seen
  for the first time the source emplaces an empty vector and does not read the version
  column.
\<close>

function Visit_StringArray ::
  "int64 list option \<Rightarrow> string list \<Rightarrow> nat \<Rightarrow> delete_set \<Rightarrow> cpp_fault + delete_set" where
  "Visit_StringArray version_col array i delete_set =
     (if i < length array then
        (let value = PkString (array ! i) in
         case delete_set value of
           Some vs \<Rightarrow>
             (case version_Value version_col i of
                Inl f \<Rightarrow> Inl f
              | Inr v \<Rightarrow> Visit_StringArray version_col array (Suc i) (delete_set(value \<mapsto> vs @ [v])))
         | None \<Rightarrow> Visit_StringArray version_col array (Suc i) (delete_set(value \<mapsto> [])))
      else Inr delete_set)"
  by pat_completeness auto
termination
  by (relation "measure (\<lambda>(vc, array, i, ds). length array - i)") auto

declare Visit_StringArray.simps [simp del]

text \<open>
  An Arrow column of a record batch: the two array types the visitor overrides, and an
  array of any other type, its cells kept as opaque strings (the base visitor answers
  \<open>NotImplemented\<close> for it).
\<close>

datatype arrow_array = Int64Array "int64 list" | StringArray "string list" | OtherArray "string list"

type_synonym cpp_batch = "(string \<times> arrow_array) list"

text \<open>
  Arrow resolves a name against a schema with \<open>GetFieldIndex\<close>: the position of the
  field of that name, or \<open>-1\<close> (here \<open>None\<close>) when no field or more than one field
  carries the name.
\<close>

definition GetFieldIndex :: "string list \<Rightarrow> string \<Rightarrow> nat option" where
  "GetFieldIndex names name =
     (case filter (\<lambda>i. names ! i = name) [0..<length names] of
        [i] \<Rightarrow> Some i
      | _ \<Rightarrow> None)"

text \<open>\<open>batch->GetColumnByName(name)\<close>: the column, or null.\<close>

definition GetColumnByName :: "cpp_batch \<Rightarrow> string \<Rightarrow> arrow_array option" where
  "GetColumnByName batch name =
     (case GetFieldIndex (map fst batch) name of
        None \<Rightarrow> None
      | Some i \<Rightarrow> Some (snd (batch ! i)))"

text \<open>
  \<open>DeleteSet::Add\<close>: the primary column is visited with the version column at hand.
  The version column is cast to an int64 array without a check (\<open>static_pointer_cast\<close>);
  a column of another type makes the cast ill-formed, which is the fault \<open>BadCast\<close>.
\<close>

definition DeleteSet_Add ::
  "string \<Rightarrow> string \<Rightarrow> cpp_batch \<Rightarrow> delete_set \<Rightarrow> cpp_fault + delete_set" where
  "DeleteSet_Add primary_column version_column batch data =
     (let pk_col = GetColumnByName batch primary_column;
          vec_col = GetColumnByName batch version_column
      in case (case vec_col of
                 None \<Rightarrow> Inr None
               | Some (Int64Array vs) \<Rightarrow> Inr (Some vs)
               | Some _ \<Rightarrow> Inl BadCast) of
           Inl f \<Rightarrow> Inl f
         | Inr int64_version_col \<Rightarrow>
             (case pk_col of
                None \<Rightarrow> Inl NullPointer
              | Some (Int64Array ks) \<Rightarrow> Visit_Int64Array int64_version_col ks 0 data
              | Some (StringArray ks) \<Rightarrow> Visit_StringArray int64_version_col ks 0 data
              | Some (OtherArray _) \<Rightarrow> Inl NotImplemented))"

text \<open>\<open>DeleteSet::GetVersionByPk\<close>.\<close>

definition GetVersionByPk :: "delete_set \<Rightarrow> pk_type \<Rightarrow> int64 list" where
  "GetVersionByPk data pk = (case data pk of Some vs \<Rightarrow> vs | None \<Rightarrow> [])"

text \<open>
  What the claim expects of the map after the rows \<open>i, i+1, \<dots>\<close> of a batch have been
  streamed in: the versions of the rows whose key is \<open>k\<close>, in row order.
\<close>

definition versions_of :: "pk_type list \<Rightarrow> int64 list \<Rightarrow> pk_type \<Rightarrow> int64 list" where
  "versions_of keys vs k = map snd (filter (\<lambda>(k', v). k' = k) (zip keys vs))"

section \<open>The derived schemas (cpp/src/storage/default_space.cpp)\<close>

datatype arrow_type =
  Int64Type | StringType | FloatType | FixedSizeListType arrow_type nat | OtherType string

type_synonym arrow_field = "string \<times> arrow_type"

type_synonym arrow_schema = "arrow_field list"

record SpaceOption =
  primary_column :: string
  version_column :: string
  vector_column :: string








section \<open>The Go space (go/storage/space.go): data\<close>

datatype error =
    ErrSchemaIsNil
  | ErrManifestNotFound
  | ErrBlobAlreadyExist
  | ErrBlobNotExist
  | ErrSchemaNotMatch
  | ErrColumnNotExist
  | ErrBlobNotWritten nat nat
  | ErrIO
  | ErrWrap string error

text \<open>
  \<open>ErrBlobNotWritten n k\<close> is the error of \<open>WriteBlob\<close> made with \<open>fmt.Errorf\<close> from
  the written and the expected byte counts; \<open>ErrIO\<close> is any error handed up by the
  filesystem or the codec; \<open>ErrWrap msg e\<close> is \<open>fmt.Errorf("msg: %w", e)\<close>.
\<close>

text \<open>
  An \<open>arrow.Record\<close>: its schema, its columns and its row count. Arrow only builds
  records that have one column per field of the schema, each of \<open>NumRows\<close> cells.
\<close>

record Record =
  rec_schema :: arrow_schema
  Columns :: "arrow_array list"
  NumRows :: nat

definition ColumnName :: "Record \<Rightarrow> nat \<Rightarrow> string" where
  "ColumnName rec k = fst (rec_schema rec ! k)"

text \<open>\<open>array.NewRecord(schema, columns, nrows)\<close>; the validation inside Arrow is not modelled.\<close>

definition NewRecord :: "arrow_schema \<Rightarrow> arrow_array list \<Rightarrow> nat \<Rightarrow> Record" where
  "NewRecord sch cols n = \<lparr> rec_schema = sch, Columns = cols, NumRows = n \<rparr>"

text \<open>\<open>schema.FieldsByName(name)\<close>, second component: is there a field of that name.\<close>

definition FieldsByName_has :: "arrow_schema \<Rightarrow> string \<Rightarrow> bool" where
  "FieldsByName_has sch name = (name \<in> set (map fst sch))"

text \<open>An \<open>array.RecordReader\<close> handed to \<open>Write\<close> or \<open>Delete\<close>: a schema and a finite stream.\<close>

record RecordReader =
  reader_Schema :: arrow_schema
  reader_records :: "Record list"

text \<open>
  Modelled from the spec: the packages \<open>schema\<close>, \<open>fragment\<close>, \<open>blob\<close>, \<open>manifest\<close>,
  \<open>option\<close> and \<open>filter\<close> are not among the sources. Section 3 of the spec gives their
  data: the user schema with its role assignments and the three derived schemas; a
  fragment as an id and an ordered list of files; a blob entry as name, size and file;
  a manifest as schema, three fragment lists, blob entries and a version. The record
  fields carry the names of the Go accessors that \<open>space.go\<close> calls.
\<close>

record SchemaOptions =
  PrimaryColumn :: string
  VersionColumn :: string
  VectorColumn :: string

definition HasVersionColumn :: "SchemaOptions \<Rightarrow> bool" where
  "HasVersionColumn opts = (VersionColumn opts \<noteq> [])"

record Schema =
  Schema :: arrow_schema
  ScalarSchema :: arrow_schema
  VectorSchema :: arrow_schema
  DeleteSchema :: arrow_schema
  Options :: SchemaOptions

record Fragment =
  FragmentId :: int64
  Files :: "string list"

definition NewFragment :: "int64 \<Rightarrow> Fragment" where
  "NewFragment v = \<lparr> FragmentId = v, Files = [] \<rparr>"

definition AddFile :: "Fragment \<Rightarrow> string \<Rightarrow> Fragment" where
  "AddFile f file = f\<lparr> Files := Files f @ [file] \<rparr>"

definition SetFragmentId :: "Fragment \<Rightarrow> int64 \<Rightarrow> Fragment" where
  "SetFragmentId f v = f\<lparr> FragmentId := v \<rparr>"

record Blob =
  Name :: string
  Size :: int64
  File :: string

record Manifest =
  GetSchema :: Schema
  GetScalarFragments :: "Fragment list"
  GetVectorFragments :: "Fragment list"
  GetDeleteFragments :: "Fragment list"
  GetBlobs :: "Blob list"
  Version :: int64

definition NewManifest :: "Schema \<Rightarrow> Manifest" where
  "NewManifest sch =
     \<lparr> GetSchema = sch, GetScalarFragments = [], GetVectorFragments = [],
       GetDeleteFragments = [], GetBlobs = [], Version = 0 \<rparr>"

text \<open>\<open>Copy\<close> clones the manifest; on values that is the identity.\<close>

definition Copy :: "Manifest \<Rightarrow> Manifest" where
  "Copy m = m"

definition SetVersion :: "Manifest \<Rightarrow> int64 \<Rightarrow> Manifest" where
  "SetVersion m v = m\<lparr> Version := v \<rparr>"

definition AddScalarFragment :: "Manifest \<Rightarrow> Fragment \<Rightarrow> Manifest" where
  "AddScalarFragment m f = m\<lparr> GetScalarFragments := GetScalarFragments m @ [f] \<rparr>"

definition AddVectorFragment :: "Manifest \<Rightarrow> Fragment \<Rightarrow> Manifest" where
  "AddVectorFragment m f = m\<lparr> GetVectorFragments := GetVectorFragments m @ [f] \<rparr>"

definition AddDeleteFragment :: "Manifest \<Rightarrow> Fragment \<Rightarrow> Manifest" where
  "AddDeleteFragment m f = m\<lparr> GetDeleteFragments := GetDeleteFragments m @ [f] \<rparr>"

definition HasBlob :: "Manifest \<Rightarrow> string \<Rightarrow> bool" where
  "HasBlob m name = (name \<in> set (map Name (GetBlobs m)))"

text \<open>The blob entry is added or replaced (spec, section 4.8).\<close>

definition AddBlob :: "Manifest \<Rightarrow> Blob \<Rightarrow> Manifest" where
  "AddBlob m b = m\<lparr> GetBlobs := filter (\<lambda>x. Name x \<noteq> Name b) (GetBlobs m) @ [b] \<rparr>"

text \<open>\<open>fragment.Make(fs, schema, f)\<close>: a delete fragment ready to be read.\<close>

record DeleteFragment =
  df_schema :: Schema
  df_fragment :: Fragment

definition Make :: "Schema \<Rightarrow> Fragment \<Rightarrow> DeleteFragment" where
  "Make sch f = \<lparr> df_schema = sch, df_fragment = f \<rparr>"

record WriteOptions =
  MaxRecordPerFile :: int64

datatype FilterOp = Equal | NotEqual | LessThan | LessThanOrEqual | GreaterThan | GreaterThanOrEqual

record ConstantFilter =
  filter_op :: FilterOp
  filter_column :: string
  filter_value :: int64

definition NewConstantFilter :: "FilterOp \<Rightarrow> string \<Rightarrow> int64 \<Rightarrow> ConstantFilter" where
  "NewConstantFilter op column v = \<lparr> filter_op = op, filter_column = column, filter_value = v \<rparr>"

record ReadOptions =
  Filters :: "ConstantFilter list"
  ReadColumns :: "string list"

definition AddFilter :: "ReadOptions \<Rightarrow> ConstantFilter \<Rightarrow> ReadOptions" where
  "AddFilter ro f = ro\<lparr> Filters := Filters ro @ [f] \<rparr>"

definition AddColumn :: "ReadOptions \<Rightarrow> string \<Rightarrow> ReadOptions" where
  "AddColumn ro column = ro\<lparr> ReadColumns := ReadColumns ro @ [column] \<rparr>"

text \<open>\<open>option.Options\<close> of \<open>Open\<close>: the schema (a pointer, possibly nil) and the version.\<close>

record OpenOptions =
  opt_Schema :: "Schema option"
  opt_Version :: int64

text \<open>
  The space. The lock is not part of the sequential model, and the filesystem behind
  the field \<open>fs\<close> is the environment that every operation takes and returns.
\<close>

record Space =
  path :: string
  deleteFragments :: "DeleteFragment list"
  manifest :: Manifest
  nextManifestVersion :: int64

section \<open>The environment: filesystem, codec and file names\<close>

text \<open>
  Modelled from the spec: the packages \<open>fs\<close>, \<open>parquet\<close>, \<open>utils\<close> and the manifest
  codec are not among the sources. Section 6 of the spec gives the filesystem
  operations (create a directory, open, write, close, rename, list); section 4.1 and
  the on-disk layout give the paths. A file holds a manifest, the records of a column
  file, or the bytes of a blob.

  Every operation of the filesystem and of the codec can fail. Which calls fail is not
  decided by the program, so the environment carries the \<open>outcomes\<close> of the calls still
  to come, one per call (none left: the call succeeds), and the fresh names
  (\<open>uuids\<close>) that the path helpers will draw.
\<close>

datatype file_data =
    NoData
  | ManifestData Manifest
  | RecordData "Record list"
  | BlobData "8 word list"

datatype outcome = Succeeds | Fails | Short nat

record Env =
  fs_files :: "(string \<times> file_data) list"
  fs_dirs :: "string list"
  outcomes :: "outcome list"
  uuids :: "string list"

definition next_outcome :: "Env \<Rightarrow> outcome \<times> Env" where
  "next_outcome env =
     (case outcomes env of
        [] \<Rightarrow> (Succeeds, env)
      | x # xs \<Rightarrow> (x, env\<lparr> outcomes := xs \<rparr>))"

text \<open>A call that either fails with an I/O error or goes on; \<open>Short\<close> only matters to a byte write.\<close>

definition attempt :: "Env \<Rightarrow> (error + unit) \<times> Env" where
  "attempt env =
     (case next_outcome env of
        (Fails, env') \<Rightarrow> (Inl ErrIO, env')
      | (_, env') \<Rightarrow> (Inr (), env'))"

text \<open>Sequencing of fallible steps: the first error ends the sequence.\<close>

definition andThen ::
  "(error + 'a) \<times> Env \<Rightarrow> ('a \<Rightarrow> Env \<Rightarrow> (error + 'b) \<times> Env) \<Rightarrow> (error + 'b) \<times> Env" where
  "andThen r f = (case r of (Inl e, env) \<Rightarrow> (Inl e, env) | (Inr x, env) \<Rightarrow> f x env)"

definition put_file :: "string \<Rightarrow> file_data \<Rightarrow> Env \<Rightarrow> Env" where
  "put_file p d env = env\<lparr> fs_files := (p, d) # filter (\<lambda>(q, _). q \<noteq> p) (fs_files env) \<rparr>"

definition get_file :: "Env \<Rightarrow> string \<Rightarrow> file_data option" where
  "get_file env p = map_of (fs_files env) p"

definition fs_CreateDir :: "Env \<Rightarrow> string \<Rightarrow> (error + unit) \<times> Env" where
  "fs_CreateDir env d =
     andThen (attempt env) (\<lambda>_ env. (Inr (), env\<lparr> fs_dirs := List.insert d (fs_dirs env) \<rparr>))"

text \<open>\<open>fs.OpenFile(p)\<close>: the handle is the path; a file that does not exist is created empty.\<close>

definition fs_OpenFile :: "Env \<Rightarrow> string \<Rightarrow> (error + string) \<times> Env" where
  "fs_OpenFile env p =
     andThen (attempt env)
       (\<lambda>_ env. (Inr p, if get_file env p = None then put_file p NoData env else env))"

definition fs_Rename :: "Env \<Rightarrow> string \<Rightarrow> string \<Rightarrow> (error + unit) \<times> Env" where
  "fs_Rename env src dst =
     andThen (attempt env)
       (\<lambda>_ env. case get_file env src of
                  None \<Rightarrow> (Inl ErrIO, env)
                | Some d \<Rightarrow>
                    (Inr (), env\<lparr> fs_files :=
                               (dst, d) # filter (\<lambda>(q, _). q \<noteq> src \<and> q \<noteq> dst) (fs_files env) \<rparr>))"

text \<open>The directory part and the last element of a path.\<close>

definition Base :: "string \<Rightarrow> string" where
  "Base p = rev (takeWhile (\<lambda>c. c \<noteq> CHR ''/'') (rev p))"

definition Dir :: "string \<Rightarrow> string" where
  "Dir p = rev (drop 1 (dropWhile (\<lambda>c. c \<noteq> CHR ''/'') (rev p)))"

text \<open>\<open>fs.List(dir)\<close>: the paths of the files directly under \<open>dir\<close>.\<close>

definition fs_List :: "Env \<Rightarrow> string \<Rightarrow> (error + string list) \<times> Env" where
  "fs_List env d =
     andThen (attempt env)
       (\<lambda>_ env. (Inr (filter (\<lambda>p. Dir p = d) (map fst (fs_files env))), env))"

text \<open>
  \<open>f.Write(content)\<close> on an open file: the number of bytes written, or an error. The
  outcome \<open>Short n\<close> is a write that reports \<open>n\<close> bytes and no error.
\<close>

definition File_Write :: "Env \<Rightarrow> string \<Rightarrow> 8 word list \<Rightarrow> (error + nat) \<times> Env" where
  "File_Write env f content =
     (case next_outcome env of
        (Fails, env') \<Rightarrow> (Inl ErrIO, env')
      | (Short n, env') \<Rightarrow> (Inr n, put_file f (BlobData (take n content)) env')
      | (Succeeds, env') \<Rightarrow> (Inr (length content), put_file f (BlobData content) env'))"

definition File_Close :: "Env \<Rightarrow> string \<Rightarrow> (error + unit) \<times> Env" where
  "File_Close env f = attempt env"

text \<open>The manifest codec: the file holds the manifest that was written to it.\<close>

definition WriteManifestFile :: "Env \<Rightarrow> Manifest \<Rightarrow> string \<Rightarrow> (error + unit) \<times> Env" where
  "WriteManifestFile env m output =
     andThen (attempt env) (\<lambda>_ env. (Inr (), put_file output (ManifestData m) env))"

definition ParseFromFile :: "Env \<Rightarrow> string \<Rightarrow> (error + Manifest) \<times> Env" where
  "ParseFromFile env p =
     andThen (attempt env)
       (\<lambda>_ env. case get_file env p of
                  Some (ManifestData m) \<Rightarrow> (Inr m, env)
                | _ \<Rightarrow> (Inl ErrIO, env))"

text \<open>
  Modelled from the spec: the column-file writer (\<open>format.Writer\<close>, made by
  \<open>parquet.NewFileWriter\<close>) is not among the sources. Section 6 asks of it batch-wise
  writing and a row count: the writer is the file it writes and the rows written so
  far, which \<open>Count\<close> returns.
\<close>

record Writer =
  writer_path :: string
  Count :: int64

definition NewFileWriter :: "Env \<Rightarrow> arrow_schema \<Rightarrow> string \<Rightarrow> (error + Writer) \<times> Env" where
  "NewFileWriter env sch filePath =
     andThen (attempt env)
       (\<lambda>_ env. (Inr \<lparr> writer_path = filePath, Count = 0 \<rparr>, put_file filePath (RecordData []) env))"

definition Writer_Write :: "Env \<Rightarrow> Writer \<Rightarrow> Record \<Rightarrow> (error + Writer) \<times> Env" where
  "Writer_Write env w rec =
     andThen (attempt env)
       (\<lambda>_ env. (Inr (w\<lparr> Count := Count w + of_nat (NumRows rec) \<rparr>),
                  put_file (writer_path w)
                    (RecordData ((case get_file env (writer_path w) of
                                    Some (RecordData rs) \<Rightarrow> rs
                                  | _ \<Rightarrow> []) @ [rec])) env))"

definition Writer_Close :: "Env \<Rightarrow> Writer \<Rightarrow> (error + unit) \<times> Env" where
  "Writer_Close env w = attempt env"

subsection \<open>Paths (package utils)\<close>

text \<open>
  Modelled from the spec: the path helpers of package \<open>utils\<close> are not among the
  sources. Section 4.1 and the on-disk layout of section 6 give the directories
  \<open>manifest\<close>, \<open>scalar\<close>, \<open>vector\<close>, \<open>delete\<close> and \<open>blob\<close> under the root, the names
  \<open><version>.mf\<close> and \<open><version>.mf.tmp\<close> of a manifest file inside the directory it is
  given, and fresh random names for data files and blobs. A path is joined with a
  single slash.
\<close>

definition Join :: "string \<Rightarrow> string \<Rightarrow> string" where
  "Join dir name = dir @ ''/'' @ name"

definition GetManifestDir :: "string \<Rightarrow> string" where
  "GetManifestDir p = Join p ''manifest''"

definition GetScalarDataDir :: "string \<Rightarrow> string" where
  "GetScalarDataDir p = Join p ''scalar''"

definition GetVectorDataDir :: "string \<Rightarrow> string" where
  "GetVectorDataDir p = Join p ''vector''"

definition GetDeleteDataDir :: "string \<Rightarrow> string" where
  "GetDeleteDataDir p = Join p ''delete''"

definition GetBlobDir :: "string \<Rightarrow> string" where
  "GetBlobDir p = Join p ''blob''"

text \<open>The decimal rendering of a version, as \<open>strconv.FormatInt(v, 10)\<close> gives it.\<close>

fun digits :: "nat \<Rightarrow> string" where
  "digits n =
     (if n < 10 then [''0123456789'' ! n]
      else digits (n div 10) @ [''0123456789'' ! (n mod 10)])"

declare digits.simps [simp del]

definition FormatInt :: "int64 \<Rightarrow> string" where
  "FormatInt v =
     (if sint v < 0 then ''-'' @ digits (nat (- sint v)) else digits (nat (sint v)))"

definition GetManifestFilePath :: "string \<Rightarrow> int64 \<Rightarrow> string" where
  "GetManifestFilePath dir v = Join dir (FormatInt v @ ''.mf'')"

definition GetManifestTmpFilePath :: "string \<Rightarrow> int64 \<Rightarrow> string" where
  "GetManifestTmpFilePath dir v = Join dir (FormatInt v @ ''.mf.tmp'')"

text \<open>A fresh name is drawn from the environment.\<close>

definition new_uuid :: "Env \<Rightarrow> string \<times> Env" where
  "new_uuid env =
     (case uuids env of
        [] \<Rightarrow> ([], env)
      | u # us \<Rightarrow> (u, env\<lparr> uuids := us \<rparr>))"

definition GetNewParquetFilePath :: "Env \<Rightarrow> string \<Rightarrow> string \<times> Env" where
  "GetNewParquetFilePath env dir = (case new_uuid env of (u, env') \<Rightarrow> (Join dir (u @ ''.parquet''), env'))"

definition GetBlobFilePath :: "Env \<Rightarrow> string \<Rightarrow> string \<times> Env" where
  "GetBlobFilePath env dir = (case new_uuid env of (u, env') \<Rightarrow> (Join dir u, env'))"

text \<open>
  Modelled from the spec: \<open>ParseVersionFromFileName\<close> is not among the sources. It
  returns the version in a name of the form \<open><version>.mf\<close>, or \<open>-1\<close> when the name
  does not have that form (section 4.1); the version is a decimal int64 with an
  optional sign, as \<open>strconv.ParseInt\<close> reads it.
\<close>

fun parse_digits :: "string \<Rightarrow> nat \<Rightarrow> nat option" where
  "parse_digits [] acc = Some acc"
| "parse_digits (c # cs) acc =
     (if c \<in> set ''0123456789''
      then parse_digits cs (10 * acc + (of_char c - 48))
      else None)"

definition ParseInt :: "string \<Rightarrow> int option" where
  "ParseInt s =
     (case (case s of
              [] \<Rightarrow> None
            | c # cs \<Rightarrow>
                if c = CHR ''-'' then (if cs = [] then None else map_option (\<lambda>n. - int n) (parse_digits cs 0))
                else if c = CHR ''+'' then (if cs = [] then None else map_option int (parse_digits cs 0))
                else map_option int (parse_digits s 0)) of
        None \<Rightarrow> None
      | Some i \<Rightarrow> if - (2 ^ 63) \<le> i \<and> i < 2 ^ 63 then Some i else None)"

definition ParseVersionFromFileName :: "string \<Rightarrow> int64" where
  "ParseVersionFromFileName name =
     (let n = length name in
      if 3 \<le> n \<and> drop (n - 3) name = ''.mf'' then
        (case ParseInt (take (n - 3) name) of
           None \<Rightarrow> - 1
         | Some i \<Rightarrow> word_of_int i)
      else - 1)"

section \<open>The Go space (go/storage/space.go): operations\<close>

text \<open>\<open>Space.init\<close>: one delete fragment is made for each delete fragment of the manifest.\<close>

definition init :: "Space \<Rightarrow> Space" where
  "init s =
     fold (\<lambda>f s. s\<lparr> deleteFragments :=
                      deleteFragments s @ [Make (GetSchema (manifest s)) f] \<rparr>)
       (GetDeleteFragments (manifest s)) s"

definition NewSpace :: "string \<Rightarrow> Manifest \<Rightarrow> int64 \<Rightarrow> Space" where
  "NewSpace p m nv =
     \<lparr> path = p, deleteFragments = [], manifest = m, nextManifestVersion = nv \<rparr>"

text \<open>\<open>safeSaveManifest\<close>: write the temporary file, then rename it.\<close>

definition safeSaveManifest :: "Env \<Rightarrow> string \<Rightarrow> Manifest \<Rightarrow> (error + unit) \<times> Env" where
  "safeSaveManifest env p m =
     (let tmpManifestFilePath = GetManifestTmpFilePath (GetManifestDir p) (Version m);
          manifestFilePath = GetManifestFilePath (GetManifestDir p) (Version m)
      in case fs_OpenFile env tmpManifestFilePath of
           (Inl err, env1) \<Rightarrow> (Inl (ErrWrap ''save manfiest'' err), env1)
         | (Inr output, env1) \<Rightarrow>
             (case WriteManifestFile env1 m output of
                (Inl err, env2) \<Rightarrow> (Inl err, env2)
              | (Inr _, env2) \<Rightarrow>
                  (case fs_Rename env2 tmpManifestFilePath manifestFilePath of
                     (Inl err, env3) \<Rightarrow> (Inl (ErrWrap ''save manfiest'' err), env3)
                   | (Inr _, env3) \<Rightarrow> (Inr (), env3))))"

text \<open>
  The end of \<open>Write\<close>, \<open>Delete\<close> and \<open>WriteBlob\<close> alike (lines 125-131, 178-182 and
  441-446): the copied manifest is saved; only after a successful save is it made the
  manifest of the space and the next version advanced.
\<close>

definition commit :: "Space \<Rightarrow> Env \<Rightarrow> Manifest \<Rightarrow> (error + unit) \<times> Space \<times> Env" where
  "commit s env copied =
     (case safeSaveManifest env (path s) copied of
        (Inl err, env') \<Rightarrow> (Inl err, s, env')
      | (Inr _, env') \<Rightarrow>
          (Inr (), s\<lparr> manifest := copied, nextManifestVersion := nextManifestVersion s + 1 \<rparr>, env'))"

subsection \<open>\<open>Space.write\<close>\<close>

text \<open>Lines 215-222: the columns of the record whose name is a field of the schema.\<close>

definition project_columns :: "arrow_schema \<Rightarrow> Record \<Rightarrow> arrow_array list" where
  "project_columns sch rec =
     fold (\<lambda>k columns. if FieldsByName_has sch (ColumnName rec k)
                        then columns @ [Columns rec ! k] else columns)
       [0..<length (Columns rec)] []"

text \<open>Lines 227-230: the loop that fills \<open>offsetValues\<close>, a slice of \<open>n\<close> zeros at first.\<close>

function fill_offsets :: "nat \<Rightarrow> nat \<Rightarrow> int64 list \<Rightarrow> int64 list" where
  "fill_offsets i n offsetValues =
     (if i < n then fill_offsets (Suc i) n (offsetValues[i := of_nat i]) else offsetValues)"
  by pat_completeness auto
termination
  by (relation "measure (\<lambda>(i, n, offsetValues). n - i)") auto

declare fill_offsets.simps [simp del]

definition offsetColumn :: "Record \<Rightarrow> arrow_array" where
  "offsetColumn rec = Int64Array (fill_offsets 0 (NumRows rec) (replicate (NumRows rec) 0))"

text \<open>Lines 215-242: the record that is handed to the writer.\<close>

definition write_record :: "arrow_schema \<Rightarrow> Record \<Rightarrow> bool \<Rightarrow> Record" where
  "write_record sch rec isScalar =
     (let columns = project_columns sch rec;
          columns = (if isScalar then columns @ [offsetColumn rec] else columns)
      in NewRecord sch columns (NumRows rec))"

text \<open>
  \<open>Space.write\<close> (named \<open>Space_write\<close>, since \<open>write\<close> is a keyword of Isabelle).
  The fragment is a pointer in the source and is changed in place
  (\<open>AddFile\<close>), so it is returned beside the writer, also on an error.
\<close>

definition Space_write ::
  "Space \<Rightarrow> Env \<Rightarrow> arrow_schema \<Rightarrow> Record \<Rightarrow> Writer option \<Rightarrow> Fragment \<Rightarrow> WriteOptions \<Rightarrow> bool
     \<Rightarrow> (error + Writer option) \<times> Fragment \<times> Env" where
  "Space_write s env sch rec writer fragment opt isScalar =
     (let rootPath = (if isScalar then GetScalarDataDir (path s) else GetVectorDataDir (path s));
          rcd = write_record sch rec isScalar
      in case (case writer of
                 None \<Rightarrow>
                   (case GetNewParquetFilePath env rootPath of
                      (filePath, env1) \<Rightarrow>
                        (case NewFileWriter env1 sch filePath of
                           (Inl err, env2) \<Rightarrow> (Inl err, fragment, env2)
                         | (Inr w, env2) \<Rightarrow> (Inr w, AddFile fragment filePath, env2)))
               | Some w \<Rightarrow> (Inr w, fragment, env)) of
           (Inl err, fragment', env') \<Rightarrow> (Inl err, fragment', env')
         | (Inr w, fragment', env') \<Rightarrow>
             (case Writer_Write env' w rcd of
                (Inl err, env'') \<Rightarrow> (Inl err, fragment', env'')
              | (Inr w', env'') \<Rightarrow>
                  if sint (MaxRecordPerFile opt) \<le> sint (Count w') then
                    (case Writer_Close env'' w' of
                       (Inl err, env3) \<Rightarrow> (Inl err, fragment', env3)
                     | (Inr _, env3) \<Rightarrow> (Inr None, fragment', env3))
                  else (Inr (Some w'), fragment', env'')))"

subsection \<open>\<open>Space.Write\<close>\<close>

text \<open>
  Lines 80-95: the loop over the reader. The state is the two writers, the two
  fragments and the environment.
\<close>

fun Write_loop ::
  "Space \<Rightarrow> WriteOptions \<Rightarrow> Record list
     \<Rightarrow> Writer option \<times> Writer option \<times> Fragment \<times> Fragment \<times> Env
     \<Rightarrow> (error + Writer option \<times> Writer option) \<times> Fragment \<times> Fragment \<times> Env" where
  "Write_loop s opt [] (scalarWriter, vectorWriter, scalarFragment, vectorFragment, env) =
     (Inr (scalarWriter, vectorWriter), scalarFragment, vectorFragment, env)"
| "Write_loop s opt (rec # rest) (scalarWriter, vectorWriter, scalarFragment, vectorFragment, env) =
     (if NumRows rec = 0 then
        Write_loop s opt rest (scalarWriter, vectorWriter, scalarFragment, vectorFragment, env)
      else
        (case Space_write s env (ScalarSchema (GetSchema (manifest s))) rec scalarWriter scalarFragment opt True of
           (Inl err, scalarFragment', env1) \<Rightarrow> (Inl err, scalarFragment', vectorFragment, env1)
         | (Inr scalarWriter', scalarFragment', env1) \<Rightarrow>
             (case Space_write s env1 (VectorSchema (GetSchema (manifest s))) rec vectorWriter vectorFragment opt False of
                (Inl err, vectorFragment', env2) \<Rightarrow> (Inl err, scalarFragment', vectorFragment', env2)
              | (Inr vectorWriter', vectorFragment', env2) \<Rightarrow>
                  Write_loop s opt rest (scalarWriter', vectorWriter', scalarFragment', vectorFragment', env2))))"

text \<open>Lines 97-106: a writer that is still open is closed.\<close>

definition close_if_open :: "Env \<Rightarrow> Writer option \<Rightarrow> (error + unit) \<times> Env" where
  "close_if_open env writer =
     (case writer of None \<Rightarrow> (Inr (), env) | Some w \<Rightarrow> Writer_Close env w)"

text \<open>Lines 110-122: the manifest that \<open>Write\<close> saves.\<close>

definition Write_copied :: "Space \<Rightarrow> Fragment \<Rightarrow> Fragment \<Rightarrow> Manifest" where
  "Write_copied s scalarFragment vectorFragment =
     (let copied = Copy (manifest s);
          nextVersion = nextManifestVersion s;
          scalarFragment = SetFragmentId scalarFragment nextVersion;
          vectorFragment = SetFragmentId vectorFragment nextVersion;
          copied = SetVersion copied nextVersion;
          copied = AddScalarFragment copied scalarFragment;
          copied = AddVectorFragment copied vectorFragment
      in copied)"

definition Write :: "Space \<Rightarrow> Env \<Rightarrow> RecordReader \<Rightarrow> WriteOptions \<Rightarrow> (error + unit) \<times> Space \<times> Env" where
  "Write s env reader opt =
     (if Schema (GetSchema (manifest s)) \<noteq> reader_Schema reader then (Inl ErrSchemaNotMatch, s, env)
      else
        (case Write_loop s opt (reader_records reader)
                (None, None, NewFragment (Version (manifest s)), NewFragment (Version (manifest s)), env) of
           (Inl err, scalarFragment, vectorFragment, env1) \<Rightarrow> (Inl err, s, env1)
         | (Inr (scalarWriter, vectorWriter), scalarFragment, vectorFragment, env1) \<Rightarrow>
             (case close_if_open env1 scalarWriter of
                (Inl err, env2) \<Rightarrow> (Inl err, s, env2)
              | (Inr _, env2) \<Rightarrow>
                  (case close_if_open env2 vectorWriter of
                     (Inl err, env3) \<Rightarrow> (Inl err, s, env3)
                   | (Inr _, env3) \<Rightarrow> commit s env3 (Write_copied s scalarFragment vectorFragment)))))"

subsection \<open>\<open>Space.Delete\<close>\<close>

text \<open>
  Lines 144-161: the loop over the reader. The path of the delete file is kept in a
  local variable only; the fragment is not touched by the loop.
\<close>

fun Delete_loop ::
  "Space \<Rightarrow> Record list \<Rightarrow> Writer option \<times> Env \<Rightarrow> (error + Writer option) \<times> Env" where
  "Delete_loop s [] (writer, env) = (Inr writer, env)"
| "Delete_loop s (rec # rest) (writer, env) =
     (if NumRows rec = 0 then Delete_loop s rest (writer, env)
      else
        (case (case writer of
                 None \<Rightarrow>
                   (case GetNewParquetFilePath env (GetDeleteDataDir (path s)) of
                      (deleteFile, env1) \<Rightarrow>
                        NewFileWriter env1 (DeleteSchema (GetSchema (manifest s))) deleteFile)
               | Some w \<Rightarrow> (Inr w, env)) of
           (Inl err, env') \<Rightarrow> (Inl err, env')
         | (Inr w, env') \<Rightarrow>
             (case Writer_Write env' w rec of
                (Inl err, env'') \<Rightarrow> (Inl err, env'')
              | (Inr w', env'') \<Rightarrow> Delete_loop s rest (Some w', env''))))"

text \<open>Lines 170-176: the manifest that \<open>Delete\<close> saves.\<close>

definition Delete_copied :: "Space \<Rightarrow> Fragment \<Rightarrow> Manifest" where
  "Delete_copied s fragment =
     (let copied = Copy (manifest s);
          nextVersion = nextManifestVersion s;
          fragment = SetFragmentId fragment nextVersion;
          copied = SetVersion copied nextVersion;
          copied = AddDeleteFragment copied fragment
      in copied)"

definition Delete :: "Space \<Rightarrow> Env \<Rightarrow> RecordReader \<Rightarrow> (error + unit) \<times> Space \<times> Env" where
  "Delete s env reader =
     (let fragment = NewFragment (Version (manifest s))
      in case Delete_loop s (reader_records reader) (None, env) of
           (Inl err, env1) \<Rightarrow> (Inl err, s, env1)
         | (Inr None, env1) \<Rightarrow> (Inr (), s, env1)
         | (Inr (Some w), env1) \<Rightarrow>
             (case Writer_Close env1 w of
                (Inl err, env2) \<Rightarrow> (Inl err, s, env2)
              | (Inr _, env2) \<Rightarrow> commit s env2 (Delete_copied s fragment)))"

subsection \<open>\<open>Space.WriteBlob\<close>\<close>

text \<open>Lines 431-439: the manifest that \<open>WriteBlob\<close> saves.\<close>

definition WriteBlob_copied :: "Space \<Rightarrow> 8 word list \<Rightarrow> string \<Rightarrow> string \<Rightarrow> Manifest" where
  "WriteBlob_copied s content name blobFile =
     (let copied = Copy (manifest s);
          nextVersion = nextManifestVersion s;
          copied = SetVersion copied nextVersion;
          copied = AddBlob copied \<lparr> Name = name, Size = of_nat (length content), File = blobFile \<rparr>
      in copied)"

definition WriteBlob ::
  "Space \<Rightarrow> Env \<Rightarrow> 8 word list \<Rightarrow> string \<Rightarrow> bool \<Rightarrow> (error + unit) \<times> Space \<times> Env" where
  "WriteBlob s env content name replace =
     (if \<not> replace \<and> HasBlob (manifest s) name then (Inl ErrBlobAlreadyExist, s, env)
      else
        (case GetBlobFilePath env (GetBlobDir (path s)) of
           (blobFile, env0) \<Rightarrow>
             (case fs_OpenFile env0 blobFile of
                (Inl err, env1) \<Rightarrow> (Inl err, s, env1)
              | (Inr f, env1) \<Rightarrow>
                  (case File_Write env1 f content of
                     (Inl err, env2) \<Rightarrow> (Inl err, s, env2)
                   | (Inr n, env2) \<Rightarrow>
                       if n \<noteq> length content then
                         (Inl (ErrBlobNotWritten n (length content)), s, env2)
                       else
                         (case File_Close env2 f of
                            (Inl err, env3) \<Rightarrow> (Inl err, s, env3)
                          | (Inr _, env3) \<Rightarrow>
                              commit s env3 (WriteBlob_copied s content name blobFile))))))"

subsection \<open>\<open>Space.Read\<close>\<close>

text \<open>
  Modelled from the spec: the package \<open>record_reader\<close> is not among the sources. The
  reader that \<open>MakeRecordReader\<close> returns is kept as what it was made from: the
  manifest and its schema, the delete fragments whose tombstones it applies, and the
  read options.
\<close>

record MadeReader =
  made_manifest :: Manifest
  made_schema :: Schema
  made_deleteFragments :: "DeleteFragment list"
  made_options :: ReadOptions

definition MakeRecordReader ::
  "Manifest \<Rightarrow> Schema \<Rightarrow> DeleteFragment list \<Rightarrow> ReadOptions \<Rightarrow> MadeReader" where
  "MakeRecordReader m sch dfs ro =
     \<lparr> made_manifest = m, made_schema = sch, made_deleteFragments = dfs, made_options = ro \<rparr>"

definition MaxInt64 :: int64 where
  "MaxInt64 = 9223372036854775807"

definition Read :: "Space \<Rightarrow> ReadOptions \<Rightarrow> error + MadeReader" where
  "Read s readOption =
     (let readOption =
            (if HasVersionColumn (Options (GetSchema (manifest s))) then
               (let f = NewConstantFilter LessThanOrEqual
                          (VersionColumn (Options (GetSchema (manifest s)))) MaxInt64
                in AddColumn (AddFilter readOption f) (VersionColumn (Options (GetSchema (manifest s)))))
             else readOption)
      in Inr (MakeRecordReader (manifest s) (GetSchema (manifest s)) (deleteFragments s) readOption))"


subsection \<open>\<open>Open\<close>\<close>

definition findAllManifest :: "Env \<Rightarrow> string \<Rightarrow> (error + string list) \<times> Env" where
  "findAllManifest env p = fs_List env p"

text \<open>Lines 369-378: the manifest of the chosen version is parsed and the space is made.\<close>

definition Open_load :: "Env \<Rightarrow> string \<Rightarrow> int64 \<Rightarrow> int64 \<Rightarrow> (error + Space) \<times> Env" where
  "Open_load env p v nv =
     (let manifestFilePath = GetManifestFilePath p v
      in andThen (ParseFromFile env manifestFilePath) (\<lambda>m env. (Inr (NewSpace p m nv), env)))"

text \<open>
  \<open>Open\<close>, from the point where the filesystem of the URI has been built and \<open>p\<close> is
  the path of the URI. \<open>sort.Slice\<close> orders the entries by version; nothing after it
  depends on the order among entries of equal version, so a stable sort stands for it.
\<close>

definition Open :: "Env \<Rightarrow> string \<Rightarrow> OpenOptions \<Rightarrow> (error + Space) \<times> Env" where
  "Open env p op =
     andThen (fs_CreateDir env (GetManifestDir p)) (\<lambda>_ env.
     andThen (fs_CreateDir env (GetScalarDataDir p)) (\<lambda>_ env.
     andThen (fs_CreateDir env (GetVectorDataDir p)) (\<lambda>_ env.
     andThen (fs_CreateDir env (GetBlobDir p)) (\<lambda>_ env.
     andThen (fs_CreateDir env (GetDeleteDataDir p)) (\<lambda>_ env.
     andThen (findAllManifest env (GetManifestDir p)) (\<lambda>manifestFileInfoVec env.
       (let filteredInfoVec =
              sort_key (\<lambda>info. sint (ParseVersionFromFileName (Base info)))
                (filter (\<lambda>info. ParseVersionFromFileName (Base info) \<noteq> - 1) manifestFileInfoVec)
        in if filteredInfoVec = [] then
             (case opt_Schema op of
                None \<Rightarrow> (Inl ErrSchemaIsNil, env)
              | Some sch \<Rightarrow>
                  (let m = SetVersion (NewManifest sch) 0
                   in andThen (safeSaveManifest env p m) (\<lambda>_ env. (Inr (NewSpace p m (0 + 1)), env))))
           else if opt_Version op = - 1 then
             (case fold (\<lambda>info (maxVersion, maxManifest).
                           (let v = ParseVersionFromFileName (Base info)
                            in if sint maxVersion < sint v then (v, info) else (maxVersion, maxManifest)))
                     filteredInfoVec (- 1, []) of
                (maxVersion, maxManifest) \<Rightarrow> Open_load env p maxVersion (0 + (maxVersion + 1)))
           else
             (case fold (\<lambda>info (fileInfo, nextManifestVersion').
                           (let ver = ParseVersionFromFileName (Base info)
                            in if ver = opt_Version op then (info, nextManifestVersion' + (ver + 1))
                               else (fileInfo, nextManifestVersion')))
                     filteredInfoVec ([], 0) of
                (fileInfo, nextManifestVersion') \<Rightarrow>
                  if fileInfo = [] then (Inl (ErrWrap ''open manifest'' ErrManifestNotFound), env)
                  else Open_load env p (opt_Version op) nextManifestVersion'))))))))"

section \<open>The C++ write (cpp/src/storage/default_space.cpp)\<close>








section \<open>Well-formed fragment ids\<close>

text \<open>
  The invariant of the spec on the fragment ids of a manifest: no fragment id exceeds
  the version of the manifest (as signed 64-bit values), and the scalar and the vector
  fragments carry the same ids.
\<close>

definition fragment_ids_wf :: "Manifest \<Rightarrow> bool" where
  "fragment_ids_wf m =
     ((\<forall>f \<in> set (GetScalarFragments m @ GetVectorFragments m @ GetDeleteFragments m).
         sint (FragmentId f) \<le> sint (Version m)) \<and>
      FragmentId ` set (GetScalarFragments m) = FragmentId ` set (GetVectorFragments m))"

section \<open>The scenario of the spec\<close>

text \<open>
  The first end-to-end scenario of the spec (section 8): the space \<open>/tmp/s1\<close> with the
  fields \<open>pk\<close>, \<open>ver\<close>, \<open>vec\<close> and \<open>tag\<close>, an empty filesystem on which no call
  fails, and four fresh file names.
\<close>

definition scenario_fields :: arrow_schema where
  "scenario_fields =
     [(''pk'', Int64Type), (''ver'', Int64Type),
      (''vec'', FixedSizeListType FloatType 4), (''tag'', StringType)]"

definition scenario_schema :: Schema where
  "scenario_schema =
     \<lparr> Schema = scenario_fields,
       ScalarSchema = [(''pk'', Int64Type), (''ver'', Int64Type), (''tag'', StringType),
                       (''offset'', Int64Type)],
       VectorSchema = [(''pk'', Int64Type), (''ver'', Int64Type),
                       (''vec'', FixedSizeListType FloatType 4)],
       DeleteSchema = [(''pk'', Int64Type), (''ver'', Int64Type)],
       Options = \<lparr> PrimaryColumn = ''pk'', VersionColumn = ''ver'', VectorColumn = ''vec'' \<rparr> \<rparr>"

definition scenario_env :: Env where
  "scenario_env =
     \<lparr> fs_files = [], fs_dirs = [], outcomes = [], uuids = [''u1'', ''u2'', ''u3'', ''u4''] \<rparr>"

text \<open>The space as \<open>Open\<close> makes it on the empty filesystem: version 0, next version 1.\<close>

definition scenario_space :: Space where
  "scenario_space = NewSpace ''/tmp/s1'' (SetVersion (NewManifest scenario_schema) 0) (0 + 1)"

text \<open>The batch of scenario 1 (three rows) and the tombstone batch of scenario 3 (one row).\<close>

definition scenario_batch :: Record where
  "scenario_batch =
     \<lparr> rec_schema = scenario_fields,
       Columns = [Int64Array [1, 2, 3], Int64Array [10, 10, 10],
                  OtherArray [''v1'', ''v2'', ''v3''], StringArray [''a'', ''b'', ''c'']],
       NumRows = 3 \<rparr>"

definition scenario_tombstones :: Record where
  "scenario_tombstones =
     \<lparr> rec_schema = [(''pk'', Int64Type), (''ver'', Int64Type)],
       Columns = [Int64Array [2], Int64Array [11]],
       NumRows = 1 \<rparr>"

text \<open>The same scenario on the C++ side: the manifest that the constructor builds.\<close>

definition cpp_scenario_options :: SpaceOption where
  "cpp_scenario_options =
     \<lparr> primary_column = ''pk'', version_column = ''ver'', vector_column = ''vec'' \<rparr>"


text \<open>A batch with the fields of the scenario and no rows.\<close>

definition scenario_empty_batch :: Record where
  "scenario_empty_batch =
     \<lparr> rec_schema = scenario_fields,
       Columns = [Int64Array [], Int64Array [], OtherArray [], StringArray []],
       NumRows = 0 \<rparr>"

text \<open>The space of the scenario after a blob named \<open>greet\<close> has been written.\<close>

definition scenario_space_with_blob :: Space where
  "scenario_space_with_blob =
     scenario_space\<lparr> manifest :=
       AddBlob (SetVersion (manifest scenario_space) 1)
         \<lparr> Name = ''greet'', Size = 5, File = ''/tmp/s1/blob/u0'' \<rparr>,
       nextManifestVersion := 2 \<rparr>"

section \<open>Properties of the delete set\<close>

lemma versions_of_Nil [simp]: "versions_of [] vs k = []" "versions_of ks [] k = []"
  by (simp_all add: versions_of_def)

lemma versions_of_Cons [simp]:
  "versions_of (k' # ks) (v # vs) k =
     (if k' = k then v # versions_of ks vs k else versions_of ks vs k)"
  by (simp add: versions_of_def)

lemma drop_step: "i < length xs \<Longrightarrow> drop i xs = xs ! i # drop (Suc i) xs"
  by (simp add: Cons_nth_drop_Suc)

text \<open>
  The int64 visitor, from row \<open>i\<close> on and from any map: a key with rows gets all their
  versions, in row order, after the versions it had.
\<close>

lemma Visit_Int64Array_result:
  "length vs = length ks \<Longrightarrow>
   Visit_Int64Array (Some vs) ks i ds =
     Inr (\<lambda>k. let new = versions_of (drop i (map PkInt64 ks)) (drop i vs) k
               in if new = [] then ds k
                  else Some ((case ds k of None \<Rightarrow> [] | Some old \<Rightarrow> old) @ new))"
proof (induction "Some vs" ks i ds rule: Visit_Int64Array.induct)
  case (1 array i delete_set)
  show ?case
  proof (cases "i < length array")
    case False
    then show ?thesis using 1(3)
      by (subst Visit_Int64Array.simps) simp
  next
    case True
    have v: "version_Value (Some vs) i = Inr (vs ! i)"
      using True 1(3) by (simp add: version_Value_def)
    have dk: "drop i (map PkInt64 array) = PkInt64 (array ! i) # drop (Suc i) (map PkInt64 array)"
      using True by (simp add: drop_step)
    have dv: "drop i vs = vs ! i # drop (Suc i) vs"
      using True 1(3) by (simp add: drop_step)
    show ?thesis
    proof (cases "delete_set (PkInt64 (array ! i))")
      case None
      have "Visit_Int64Array (Some vs) array i delete_set =
            Visit_Int64Array (Some vs) array (Suc i) (delete_set(PkInt64 (array ! i) \<mapsto> [vs ! i]))"
        using True v None by (subst Visit_Int64Array.simps) simp
      also note 1(1)[OF True refl v None 1(3)]
      finally show ?thesis
        using None by (auto simp: dk dv Let_def fun_eq_iff)
    next
      case (Some old)
      have "Visit_Int64Array (Some vs) array i delete_set =
            Visit_Int64Array (Some vs) array (Suc i) (delete_set(PkInt64 (array ! i) \<mapsto> old @ [vs ! i]))"
        using True v Some by (subst Visit_Int64Array.simps) simp
      also note 1(2)[OF True refl v Some 1(3)]
      finally show ?thesis
        using Some by (auto simp: dk dv Let_def fun_eq_iff)
    qed
  qed
qed

text \<open>
  The string visitor: a key that was not in the map gets the versions of its rows
  without the first one.
\<close>

lemma Visit_StringArray_result:
  "length vs = length ks \<Longrightarrow>
   Visit_StringArray (Some vs) ks i ds =
     Inr (\<lambda>k. let new = versions_of (drop i (map PkString ks)) (drop i vs) k
               in if new = [] then ds k
                  else Some (case ds k of None \<Rightarrow> tl new | Some old \<Rightarrow> old @ new))"
proof (induction "Some vs" ks i ds rule: Visit_StringArray.induct)
  case (1 array i delete_set)
  show ?case
  proof (cases "i < length array")
    case False
    then show ?thesis using 1(3)
      by (subst Visit_StringArray.simps) simp
  next
    case True
    have v: "version_Value (Some vs) i = Inr (vs ! i)"
      using True 1(3) by (simp add: version_Value_def)
    have dk: "drop i (map PkString array) = PkString (array ! i) # drop (Suc i) (map PkString array)"
      using True by (simp add: drop_step)
    have dv: "drop i vs = vs ! i # drop (Suc i) vs"
      using True 1(3) by (simp add: drop_step)
    show ?thesis
    proof (cases "delete_set (PkString (array ! i))")
      case None
      have "Visit_StringArray (Some vs) array i delete_set =
            Visit_StringArray (Some vs) array (Suc i) (delete_set(PkString (array ! i) \<mapsto> []))"
        using True None by (subst Visit_StringArray.simps) simp
      also note 1(1)[OF True refl None 1(3)]
      finally show ?thesis
        using None by (auto simp: dk dv Let_def fun_eq_iff)
    next
      case (Some old)
      have "Visit_StringArray (Some vs) array i delete_set =
            Visit_StringArray (Some vs) array (Suc i) (delete_set(PkString (array ! i) \<mapsto> old @ [vs ! i]))"
        using True v Some by (subst Visit_StringArray.simps) simp
      also note 1(2)[OF True refl Some v 1(3)]
      finally show ?thesis
        using Some by (auto simp: dk dv Let_def fun_eq_iff)
    qed
  qed
qed

text \<open>The int64 path at two tombstones of the key 7: both versions are recorded.\<close>

lemma DeleteSet_Add_int64_example:
  "(case DeleteSet_Add ''pk'' ''ver''
           [(''pk'', Int64Array [7, 7]), (''ver'', Int64Array [5, 6])] Map.empty of
      Inl f \<Rightarrow> False
    | Inr data \<Rightarrow> GetVersionByPk data (PkInt64 7) = [5, 6])"
  by (simp add: DeleteSet_Add_def GetColumnByName_def GetFieldIndex_def GetVersionByPk_def
      Visit_Int64Array.simps version_Value_def upt_rec)

text \<open>
  Claim C4: for every sequence of tombstone rows \<open>(K, V)\<close> streamed into the delete set,
  the map sends each primary key \<open>K\<close> to the ordered list of all versions recorded for
  \<open>K\<close>, one entry per tombstone row with key \<open>K\<close>, whether the key is an int64 or a
  string. The int64 visitor does so (\<open>Visit_Int64Array_result\<close>). The string visitor
  does not: at the two tombstones \<open>("a", 5)\<close> and \<open>("a", 6)\<close> the list recorded for
  \<open>"a"\<close> is \<open>[6]\<close>, the version of the first row being dropped.
\<close>

theorem C4_string_key_loses_first_version:
  "(case DeleteSet_Add ''pk'' ''ver''
           [(''pk'', StringArray [''a'', ''a'']), (''ver'', Int64Array [5, 6])] Map.empty of
      Inl f \<Rightarrow> False
    | Inr data \<Rightarrow> GetVersionByPk data (PkString ''a'') = [6])"
  by (simp add: DeleteSet_Add_def GetColumnByName_def GetFieldIndex_def GetVersionByPk_def
      Visit_StringArray.simps version_Value_def upt_rec)

section \<open>Properties of the derived schemas\<close>







section \<open>Properties of the Go space\<close>

lemmas path_defs = Join_def GetManifestDir_def GetScalarDataDir_def GetVectorDataDir_def
  GetDeleteDataDir_def GetBlobDir_def GetManifestFilePath_def GetManifestTmpFilePath_def
  FormatInt_def digits.simps

lemmas env_defs = next_outcome_def attempt_def andThen_def put_file_def get_file_def
  fs_CreateDir_def fs_OpenFile_def fs_Rename_def fs_List_def File_Write_def File_Close_def
  WriteManifestFile_def ParseFromFile_def NewFileWriter_def Writer_Write_def Writer_Close_def
  new_uuid_def GetNewParquetFilePath_def GetBlobFilePath_def

lemmas manifest_defs = NewManifest_def Copy_def SetVersion_def AddScalarFragment_def
  AddVectorFragment_def AddDeleteFragment_def HasBlob_def AddBlob_def NewFragment_def
  AddFile_def SetFragmentId_def

lemmas scenario_defs = scenario_fields_def scenario_schema_def scenario_env_def
  scenario_space_def scenario_batch_def scenario_tombstones_def scenario_empty_batch_def
  scenario_space_with_blob_def NewSpace_def

subsection \<open>The filesystem\<close>

lemma attempt_files: "attempt env = (r, env') \<Longrightarrow> fs_files env' = fs_files env"
  by (auto simp: attempt_def next_outcome_def split: list.splits outcome.splits)

lemma map_of_filter_key:
  "map_of (filter (\<lambda>(q, _). P q) xs) k = (if P k then map_of xs k else None)"
  by (induction xs) auto

lemma get_file_put_file:
  "get_file (put_file p d env) q = (if q = p then Some d else get_file env q)"
  by (simp add: get_file_def put_file_def map_of_filter_key)

lemma fs_OpenFile_Inr: "fs_OpenFile env p = (Inr f, env') \<Longrightarrow> f = p"
  by (auto simp: fs_OpenFile_def andThen_def split: prod.splits sum.splits)


lemma fs_Rename_Inr:
  "fs_Rename env src dst = (Inr u, env') \<Longrightarrow>
   get_file env' dst = get_file env src \<and> get_file env src \<noteq> None"
  by (auto simp: fs_Rename_def andThen_def get_file_def map_of_filter_key
      split: prod.splits sum.splits option.splits dest!: attempt_files)

lemma WriteManifestFile_Inr:
  "WriteManifestFile env m output = (Inr u, env') \<Longrightarrow>
   get_file env' output = Some (ManifestData m)"
  by (auto simp: WriteManifestFile_def andThen_def get_file_put_file
      split: prod.splits sum.splits)




text \<open>A successful save leaves the manifest at the committed path of its version.\<close>

lemma safeSaveManifest_published:
  "safeSaveManifest env p m = (Inr u, env') \<Longrightarrow>
   get_file env' (GetManifestFilePath (GetManifestDir p) (Version m)) = Some (ManifestData m)"
  by (auto simp: safeSaveManifest_def Let_def split: prod.splits sum.splits
      dest!: fs_Rename_Inr WriteManifestFile_Inr fs_OpenFile_Inr)

subsection \<open>The end of a publishing call\<close>


lemma commit_Inr:
  "commit s env copied = (Inr u, s', env') \<Longrightarrow>
   s' = s\<lparr> manifest := copied, nextManifestVersion := nextManifestVersion s + 1 \<rparr> \<and>
   safeSaveManifest env (path s) copied = (Inr (), env')"
  by (auto simp: commit_def split: prod.splits sum.splits)




lemma Write_reaches_commit:
  "Write s env reader opt = (Inr u, s', env') \<Longrightarrow>
   \<exists>sf vf env3. commit s env3 (Write_copied s sf vf) = (Inr u, s', env')"
  by (auto simp: Write_def split: if_splits prod.splits sum.splits)

lemma WriteBlob_reaches_commit:
  "WriteBlob s env content name replace = (Inr u, s', env') \<Longrightarrow>
   \<exists>blobFile env3. commit s env3 (WriteBlob_copied s content name blobFile) = (Inr u, s', env')"
  by (auto simp: WriteBlob_def split: if_splits prod.splits sum.splits)

subsection \<open>The loops over a stream without rows\<close>

lemma Delete_loop_no_rows:
  "\<forall>rec \<in> set rs. NumRows rec = 0 \<Longrightarrow> Delete_loop s rs (w, env) = (Inr w, env)"
  by (induction rs) simp_all


text \<open>Once a delete file is open, the loop of \<open>Delete\<close> ends with an open writer.\<close>

lemma Delete_loop_Some:
  "Delete_loop s rs (Some w, env) = (Inr r, env') \<Longrightarrow> r \<noteq> None"
  by (induction rs arbitrary: w env) (auto split: if_splits prod.splits sum.splits)

lemma Delete_loop_None:
  "Delete_loop s rs (w, env) = (Inr None, env') \<Longrightarrow> w = None \<and> env' = env"
proof (induction rs arbitrary: w env)
  case Nil
  then show ?case by simp
next
  case (Cons rec rs)
  show ?case
  proof (cases "NumRows rec = 0")
    case True
    with Cons show ?thesis by simp
  next
    case False
    with Cons.prems show ?thesis
      by (auto split: prod.splits sum.splits dest: Delete_loop_Some)
  qed
qed

lemma Delete_reaches_commit:
  "Delete s env reader = (Inr u, s', env') \<Longrightarrow>
   s' = s \<and> env' = env \<or>
   (\<exists>env2. commit s env2 (Delete_copied s (NewFragment (Version (manifest s)))) = (Inr u, s', env'))"
  by (auto simp: Delete_def Let_def split: if_splits prod.splits sum.splits option.splits
      dest: Delete_loop_None)

subsection \<open>The manifests that are saved\<close>

lemma Write_copied_simps:
  "Version (Write_copied s sf vf) = nextManifestVersion s"
  "GetScalarFragments (Write_copied s sf vf) =
     GetScalarFragments (manifest s) @ [sf\<lparr> FragmentId := nextManifestVersion s \<rparr>]"
  "GetVectorFragments (Write_copied s sf vf) =
     GetVectorFragments (manifest s) @ [vf\<lparr> FragmentId := nextManifestVersion s \<rparr>]"
  "GetDeleteFragments (Write_copied s sf vf) = GetDeleteFragments (manifest s)"
  by (simp_all add: Write_copied_def Let_def Copy_def SetVersion_def
      SetFragmentId_def AddScalarFragment_def AddVectorFragment_def)

lemma Delete_copied_simps:
  "Version (Delete_copied s f) = nextManifestVersion s"
  "GetScalarFragments (Delete_copied s f) = GetScalarFragments (manifest s)"
  "GetVectorFragments (Delete_copied s f) = GetVectorFragments (manifest s)"
  "GetDeleteFragments (Delete_copied s f) =
     GetDeleteFragments (manifest s) @ [f\<lparr> FragmentId := nextManifestVersion s \<rparr>]"
  by (simp_all add: Delete_copied_def Let_def Copy_def SetVersion_def
      SetFragmentId_def AddDeleteFragment_def)

lemma Write_copied_wf:
  assumes "fragment_ids_wf (manifest s)"
      and "sint (Version (manifest s)) \<le> sint (nextManifestVersion s)"
  shows "fragment_ids_wf (Write_copied s sf vf)"
  using assms
  unfolding fragment_ids_wf_def Write_copied_simps
  by (auto intro: order_trans)

lemma Delete_copied_wf:
  assumes "fragment_ids_wf (manifest s)"
      and "sint (Version (manifest s)) \<le> sint (nextManifestVersion s)"
  shows "fragment_ids_wf (Delete_copied s f)"
  using assms
  unfolding fragment_ids_wf_def Delete_copied_simps
  by (auto intro: order_trans)
subsection \<open>Claims C10 and C2: streams without rows\<close>

text \<open>
  Claim C10: a call to \<open>Delete\<close> whose stream yields no batch with a positive row
  count succeeds and changes nothing: the space (its manifest and next version) and
  the environment (no delete file opened, no manifest saved) are returned as they were.
\<close>

theorem C10_Delete_without_rows:
  "\<forall>rec \<in> set (reader_records reader). NumRows rec = 0 \<Longrightarrow>
   Delete s env reader = (Inr (), s, env)"
  by (simp add: Delete_def Delete_loop_no_rows)

theorem C10_Delete_without_rows_witness:
  "NumRows scenario_empty_batch = 0 \<and>
   Delete scenario_space scenario_env
     \<lparr> reader_Schema = DeleteSchema scenario_schema,
       reader_records = [scenario_empty_batch, scenario_empty_batch] \<rparr> =
   (Inr (), scenario_space, scenario_env)"
proof -
  have h: "\<forall>rec \<in> set (reader_records
              \<lparr> reader_Schema = DeleteSchema scenario_schema,
                reader_records = [scenario_empty_batch, scenario_empty_batch] \<rparr>).
             NumRows rec = 0"
    by (simp add: scenario_empty_batch_def)
  show ?thesis
    using C10_Delete_without_rows [OF h, of scenario_space scenario_env]
    by (simp add: scenario_empty_batch_def)
qed




subsection \<open>Claim C6: a failed save\<close>


subsection \<open>Claim C8: the failures of \<open>WriteBlob\<close>\<close>



subsection \<open>Claim C9: the fragment ids of a published manifest\<close>

text \<open>
  Claim C9: in every manifest published by a successful \<open>Write\<close> or \<open>Delete\<close>, every
  fragment id is at most the version of the manifest, the fragments appended by the
  call carry the new version as their id, and the scalar and the vector fragments have
  the same ids. It is an invariant: it holds of the new manifest when it held of the
  manifest before and the next version was not below the current one. The new
  manifest is the one found at the committed path of its version. A \<open>Delete\<close> that
  succeeds either published such a manifest or changed nothing at all.
\<close>

theorem C9_published_fragment_ids:
  assumes "fragment_ids_wf (manifest s)"
      and "sint (Version (manifest s)) \<le> sint (nextManifestVersion s)"
  shows "(Write s env reader opt = (Inr (), s', env') \<longrightarrow>
            fragment_ids_wf (manifest s') \<and>
            Version (manifest s') = nextManifestVersion s \<and>
            get_file env' (GetManifestFilePath (GetManifestDir (path s)) (nextManifestVersion s)) =
              Some (ManifestData (manifest s')) \<and>
            (\<exists>sf vf. GetScalarFragments (manifest s') = GetScalarFragments (manifest s) @ [sf] \<and>
                     FragmentId sf = Version (manifest s') \<and>
                     GetVectorFragments (manifest s') = GetVectorFragments (manifest s) @ [vf] \<and>
                     FragmentId vf = Version (manifest s')) \<and>
            GetDeleteFragments (manifest s') = GetDeleteFragments (manifest s)) \<and>
         (Delete s env reader = (Inr (), s', env') \<longrightarrow>
            s' = s \<and> env' = env \<or>
            fragment_ids_wf (manifest s') \<and>
            Version (manifest s') = nextManifestVersion s \<and>
            get_file env' (GetManifestFilePath (GetManifestDir (path s)) (nextManifestVersion s)) =
              Some (ManifestData (manifest s')) \<and>
            (\<exists>df. GetDeleteFragments (manifest s') = GetDeleteFragments (manifest s) @ [df] \<and>
                  FragmentId df = Version (manifest s')) \<and>
            GetScalarFragments (manifest s') = GetScalarFragments (manifest s) \<and>
            GetVectorFragments (manifest s') = GetVectorFragments (manifest s))"
proof (intro conjI impI)
  assume w: "Write s env reader opt = (Inr (), s', env')"
  then obtain sf vf env3 where c: "commit s env3 (Write_copied s sf vf) = (Inr (), s', env')"
    by (blast dest: Write_reaches_commit)
  from commit_Inr[OF c] have m: "manifest s' = Write_copied s sf vf"
    and sv: "safeSaveManifest env3 (path s) (Write_copied s sf vf) = (Inr (), env')"
    by simp_all
  show "fragment_ids_wf (manifest s')"
    using assms by (simp add: m Write_copied_wf)
  show "Version (manifest s') = nextManifestVersion s"
    by (simp add: m Write_copied_simps)
  show "get_file env' (GetManifestFilePath (GetManifestDir (path s)) (nextManifestVersion s)) =
          Some (ManifestData (manifest s'))"
    using safeSaveManifest_published[OF sv] by (simp add: m Write_copied_simps)
  show "\<exists>sf vf. GetScalarFragments (manifest s') = GetScalarFragments (manifest s) @ [sf] \<and>
                FragmentId sf = Version (manifest s') \<and>
                GetVectorFragments (manifest s') = GetVectorFragments (manifest s) @ [vf] \<and>
                FragmentId vf = Version (manifest s')"
    by (simp add: m Write_copied_simps)
  show "GetDeleteFragments (manifest s') = GetDeleteFragments (manifest s)"
    by (simp add: m Write_copied_simps)
next
  assume d: "Delete s env reader = (Inr (), s', env')"
  let ?f = "NewFragment (Version (manifest s))"
  from Delete_reaches_commit[OF d]
  consider "s' = s \<and> env' = env"
    | env2 where "commit s env2 (Delete_copied s ?f) = (Inr (), s', env')"
    by blast
  then show "s' = s \<and> env' = env \<or>
            fragment_ids_wf (manifest s') \<and>
            Version (manifest s') = nextManifestVersion s \<and>
            get_file env' (GetManifestFilePath (GetManifestDir (path s)) (nextManifestVersion s)) =
              Some (ManifestData (manifest s')) \<and>
            (\<exists>df. GetDeleteFragments (manifest s') = GetDeleteFragments (manifest s) @ [df] \<and>
                  FragmentId df = Version (manifest s')) \<and>
            GetScalarFragments (manifest s') = GetScalarFragments (manifest s) \<and>
            GetVectorFragments (manifest s') = GetVectorFragments (manifest s)"
  proof cases
    case 1
    then show ?thesis by simp
  next
    case 2
    from commit_Inr[OF 2] have m: "manifest s' = Delete_copied s ?f"
      and sv: "safeSaveManifest env2 (path s) (Delete_copied s ?f) = (Inr (), env')"
      by simp_all
    have "fragment_ids_wf (manifest s')"
      using assms by (simp add: m Delete_copied_wf)
    moreover have
      "get_file env' (GetManifestFilePath (GetManifestDir (path s)) (nextManifestVersion s)) =
         Some (ManifestData (manifest s'))"
      using safeSaveManifest_published[OF sv] by (simp add: m Delete_copied_simps)
    ultimately show ?thesis
      by (simp add: m Delete_copied_simps)
  qed
qed

theorem C9_published_fragment_ids_witness:
  "fst (Write scenario_space scenario_env
          \<lparr> reader_Schema = scenario_fields, reader_records = [scenario_batch] \<rparr>
          \<lparr> MaxRecordPerFile = 10 \<rparr>) = Inr () \<and>
   fragment_ids_wf (manifest (fst (snd (Write scenario_space scenario_env
          \<lparr> reader_Schema = scenario_fields, reader_records = [scenario_batch] \<rparr>
          \<lparr> MaxRecordPerFile = 10 \<rparr>)))) \<and>
   Version (manifest (fst (snd (Write scenario_space scenario_env
          \<lparr> reader_Schema = scenario_fields, reader_records = [scenario_batch] \<rparr>
          \<lparr> MaxRecordPerFile = 10 \<rparr>)))) = 1"
proof -
  let ?W = "Write scenario_space scenario_env
          \<lparr> reader_Schema = scenario_fields, reader_records = [scenario_batch] \<rparr>
          \<lparr> MaxRecordPerFile = 10 \<rparr>"
  have e: "fst ?W = Inr ()"
    by (simp add: Write_def Space_write_def write_record_def close_if_open_def
        Write_copied_def commit_def safeSaveManifest_def NewRecord_def
        path_defs env_defs manifest_defs scenario_defs Let_def)
  then have w: "?W = (Inr (), fst (snd ?W), snd (snd ?W))"
    by (metis prod.collapse)
  have wf: "fragment_ids_wf (manifest scenario_space)"
    by (simp add: fragment_ids_wf_def scenario_defs manifest_defs)
  have le: "sint (Version (manifest scenario_space)) \<le> sint (nextManifestVersion scenario_space)"
    by (simp add: scenario_defs manifest_defs)
  have "fragment_ids_wf (manifest (fst (snd ?W))) \<and>
        Version (manifest (fst (snd ?W))) = nextManifestVersion scenario_space"
    using C9_published_fragment_ids [OF wf le, THEN conjunct1, rule_format, OF w] by blast
  with e show ?thesis
    by (simp add: scenario_space_def NewSpace_def)
qed

text \<open>
  The two hypotheses of the claim hold again after every successful call, as long as
  the next version has not reached the largest int64, where the increment wraps around.
\<close>

lemma sint_MaxInt64: "sint MaxInt64 = 9223372036854775807"
  by (simp add: MaxInt64_def)

lemma sint_succ_le:
  assumes "x \<noteq> MaxInt64"
  shows "sint x \<le> sint (x + 1)"
proof -
  have "sint x \<noteq> sint MaxInt64"
    using assms signed_word_eqI[of x MaxInt64] by blast
  moreover have "sint x < 2 ^ 63" "- (2 ^ 63) \<le> sint x"
    using sint_lt[of x] sint_ge[of x] by simp_all
  ultimately have r: "- (2 ^ 63) \<le> sint x + 1" "sint x + 1 < 2 ^ 63"
    by (simp_all add: sint_MaxInt64)
  have "sint (x + 1) = signed_take_bit 63 (sint x + 1)"
    by (simp add: sint_word_ariths)
  also have "\<dots> = sint x + 1"
    using r by (simp add: signed_take_bit_int_eq_self)
  finally show ?thesis by simp
qed

lemma WriteBlob_copied_simps:
  "Version (WriteBlob_copied s content name blobFile) = nextManifestVersion s"
  "GetScalarFragments (WriteBlob_copied s content name blobFile) = GetScalarFragments (manifest s)"
  "GetVectorFragments (WriteBlob_copied s content name blobFile) = GetVectorFragments (manifest s)"
  "GetDeleteFragments (WriteBlob_copied s content name blobFile) = GetDeleteFragments (manifest s)"
  by (simp_all add: WriteBlob_copied_def Let_def Copy_def SetVersion_def AddBlob_def)

lemma WriteBlob_copied_wf:
  assumes "fragment_ids_wf (manifest s)"
      and "sint (Version (manifest s)) \<le> sint (nextManifestVersion s)"
  shows "fragment_ids_wf (WriteBlob_copied s content name blobFile)"
  using assms
  unfolding fragment_ids_wf_def WriteBlob_copied_simps
  by (auto intro: order_trans)

lemma commit_keeps_invariant:
  assumes "commit s env copied = (Inr (), s', env')"
      and "fragment_ids_wf copied"
      and "Version copied = nextManifestVersion s"
      and "nextManifestVersion s \<noteq> MaxInt64"
  shows "fragment_ids_wf (manifest s') \<and>
         sint (Version (manifest s')) \<le> sint (nextManifestVersion s')"
  using commit_Inr[OF assms(1)] assms(2,3) sint_succ_le[OF assms(4)]
  by simp

lemma published_invariant_step:
  assumes "fragment_ids_wf (manifest s)"
      and "sint (Version (manifest s)) \<le> sint (nextManifestVersion s)"
      and "nextManifestVersion s \<noteq> MaxInt64"
      and "Write s env reader opt = (Inr (), s', env') \<or>
           Delete s env reader = (Inr (), s', env') \<or>
           WriteBlob s env content name replace = (Inr (), s', env')"
  shows "fragment_ids_wf (manifest s') \<and>
         sint (Version (manifest s')) \<le> sint (nextManifestVersion s')"
  using assms(4)
proof (elim disjE)
  assume "Write s env reader opt = (Inr (), s', env')"
  then obtain sf vf env3 where c: "commit s env3 (Write_copied s sf vf) = (Inr (), s', env')"
    by (blast dest: Write_reaches_commit)
  show ?thesis
    by (rule commit_keeps_invariant[OF c Write_copied_wf[OF assms(1,2)] _ assms(3)])
      (simp add: Write_copied_simps)
next
  assume "Delete s env reader = (Inr (), s', env')"
  from Delete_reaches_commit[OF this]
  consider "s' = s"
    | env2 where
      "commit s env2 (Delete_copied s (NewFragment (Version (manifest s)))) = (Inr (), s', env')"
    by blast
  then show ?thesis
  proof cases
    case 1
    with assms(1,2) show ?thesis by simp
  next
    case 2
    show ?thesis
      by (rule commit_keeps_invariant[OF 2 Delete_copied_wf[OF assms(1,2)] _ assms(3)])
        (simp add: Delete_copied_simps)
  qed
next
  assume "WriteBlob s env content name replace = (Inr (), s', env')"
  then obtain blobFile env3
    where c: "commit s env3 (WriteBlob_copied s content name blobFile) = (Inr (), s', env')"
    by (blast dest: WriteBlob_reaches_commit)
  show ?thesis
    by (rule commit_keeps_invariant[OF c WriteBlob_copied_wf[OF assms(1,2)] _ assms(3)])
      (simp add: WriteBlob_copied_simps)
qed

subsection \<open>Claim C3: the offset column\<close>







text \<open>The record that \<open>write_record\<close> builds is the one appended to the file of the writer.\<close>

lemma Writer_Write_appends:
  "Writer_Write env w rec = (Inr w', env') \<Longrightarrow>
   \<exists>rs. get_file env' (writer_path w) = Some (RecordData (rs @ [rec]))"
  by (auto simp: Writer_Write_def andThen_def get_file_put_file split: prod.splits sum.splits)

lemma Writer_Close_get_file:
  "Writer_Close env w = (r, env') \<Longrightarrow> get_file env' q = get_file env q"
  by (simp add: Writer_Close_def get_file_def attempt_files)

lemma Space_write_appends:
  assumes "Space_write s env sch rec (Some w) fragment opt isScalar = (Inr w', fragment', env')"
  shows "\<exists>rs. get_file env' (writer_path w) = Some (RecordData (rs @ [write_record sch rec isScalar]))"
proof -
  obtain r1 env1 where ww: "Writer_Write env w (write_record sch rec isScalar) = (r1, env1)"
    by (cases "Writer_Write env w (write_record sch rec isScalar)") auto
  with assms obtain w1 where r1: "r1 = Inr w1"
    by (cases r1) (auto simp: Space_write_def Let_def)
  from Writer_Write_appends[OF ww[unfolded r1]] obtain rs
    where g: "get_file env1 (writer_path w) = Some (RecordData (rs @ [write_record sch rec isScalar]))"
    by blast
  have "get_file env' (writer_path w) = get_file env1 (writer_path w)"
    using assms ww r1
    by (auto simp: Space_write_def Let_def split: if_splits prod.splits sum.splits
        dest: Writer_Close_get_file)
  with g show ?thesis by auto
qed

subsection \<open>Claim C5: the path of a saved manifest and the path that \<open>Open\<close> reads\<close>

text \<open>
  The committed path that \<open>safeSaveManifest\<close> renames to is never the path that \<open>Open\<close>
  parses: the first lies in the manifest directory, the second directly under the root.
\<close>

lemma saved_path_not_opened_path:
  "GetManifestFilePath (GetManifestDir p) v \<noteq> GetManifestFilePath p v"
  by (simp add: GetManifestFilePath_def GetManifestDir_def Join_def)

text \<open>
  Claim C5: saving a manifest of version \<open>V\<close> writes \<open>manifest/<V>.mf.tmp\<close> and renames
  it to \<open>manifest/<V>.mf\<close>, and \<open>Open\<close> at version \<open>V\<close> loads the manifest back from
  that same path. The save does so; \<open>Open\<close> does not. After the manifest of version 0
  of the scenario has been saved, it is at \<open>/tmp/s1/manifest/0.mf\<close>; \<open>Open\<close> at version
  0 finds that entry in the manifest directory, then parses \<open>/tmp/s1/0.mf\<close>, where
  there is no file, and fails.
\<close>

theorem C5_Open_reads_another_path:
  "(case safeSaveManifest scenario_env ''/tmp/s1'' (manifest scenario_space) of
      (r, env) \<Rightarrow>
        r = Inr () \<and>
        get_file env ''/tmp/s1/manifest/0.mf'' = Some (ManifestData (manifest scenario_space)) \<and>
        get_file env ''/tmp/s1/0.mf'' = None \<and>
        GetManifestFilePath ''/tmp/s1'' 0 = ''/tmp/s1/0.mf'' \<and>
        fst (Open env ''/tmp/s1'' \<lparr> opt_Schema = None, opt_Version = 0 \<rparr>) = Inl ErrIO)"
  by (simp add: safeSaveManifest_def Open_def Open_load_def findAllManifest_def
      ParseVersionFromFileName_def ParseInt_def Base_def Dir_def
      path_defs env_defs manifest_defs scenario_defs Let_def)

subsection \<open>Claim C1: the delete fragments that a read applies\<close>

text \<open>No operation of the space touches its list of delete fragments.\<close>

lemma commit_deleteFragments:
  "commit s env copied = (r, s', env') \<Longrightarrow> deleteFragments s' = deleteFragments s"
  by (auto simp: commit_def split: prod.splits sum.splits)

lemma Write_deleteFragments:
  "Write s env reader opt = (r, s', env') \<Longrightarrow> deleteFragments s' = deleteFragments s"
  by (auto simp: Write_def split: if_splits prod.splits sum.splits dest: commit_deleteFragments)

lemma Delete_deleteFragments:
  "Delete s env reader = (r, s', env') \<Longrightarrow> deleteFragments s' = deleteFragments s"
  by (auto simp: Delete_def split: if_splits prod.splits sum.splits option.splits
      dest: commit_deleteFragments)

lemma WriteBlob_deleteFragments:
  "WriteBlob s env content name replace = (r, s', env') \<Longrightarrow>
   deleteFragments s' = deleteFragments s"
  by (auto simp: WriteBlob_def split: if_splits prod.splits sum.splits
      dest: commit_deleteFragments)

text \<open>The reader is made with the list of the space, whatever the manifest holds.\<close>

lemma Read_deleteFragments:
  "Read s ro = Inr rd \<Longrightarrow>
   made_deleteFragments rd = deleteFragments s \<and> made_manifest rd = manifest s"
  by (auto simp: Read_def MakeRecordReader_def Let_def)

text \<open>Only \<open>init\<close>, which nothing calls, would fill the list from the manifest.\<close>

lemma init_fold:
  "manifest (fold (\<lambda>f s. s\<lparr> deleteFragments :=
               deleteFragments s @ [Make (GetSchema (manifest s)) f] \<rparr>) frags t) = manifest t \<and>
   deleteFragments (fold (\<lambda>f s. s\<lparr> deleteFragments :=
               deleteFragments s @ [Make (GetSchema (manifest s)) f] \<rparr>) frags t) =
     deleteFragments t @ map (Make (GetSchema (manifest t))) frags"
  by (induction frags arbitrary: t) simp_all

lemma init_deleteFragments:
  "deleteFragments (init s) =
     deleteFragments s @ map (Make (GetSchema (manifest s))) (GetDeleteFragments (manifest s))"
  by (simp add: init_def init_fold)

text \<open>
  Claim C1: the delete set of a read is built from exactly the delete fragments of the
  manifest that the read captured. The code does not do so. On the fresh space of the
  scenario, \<open>Delete\<close> of the one-row tombstone batch succeeds and the manifest of the
  space then lists one delete fragment, of id 1; the reader that \<open>Read\<close> makes next
  from that manifest is given no delete fragment at all.
\<close>

theorem C1_Read_gets_no_delete_fragments:
  "(case Delete scenario_space scenario_env
           \<lparr> reader_Schema = DeleteSchema scenario_schema,
             reader_records = [scenario_tombstones] \<rparr> of
      (r, s, env) \<Rightarrow>
        r = Inr () \<and>
        (case Read s \<lparr> Filters = [], ReadColumns = [] \<rparr> of
           Inl e \<Rightarrow> False
         | Inr rd \<Rightarrow>
             GetDeleteFragments (made_manifest rd) = [\<lparr> FragmentId = 1, Files = [] \<rparr>] \<and>
             made_deleteFragments rd = []))"
  by (simp add: Delete_def Delete_copied_def commit_def safeSaveManifest_def Read_def
      MakeRecordReader_def HasVersionColumn_def NewConstantFilter_def AddFilter_def AddColumn_def
      path_defs env_defs manifest_defs scenario_defs Let_def)
text \<open>A space that \<open>Open\<close> returns has no delete fragments, whatever its manifest lists.\<close>

lemma andThen_Inr:
  "andThen r f = (Inr y, env') \<Longrightarrow> \<exists>x env. r = (Inr x, env) \<and> f x env = (Inr y, env')"
  by (auto simp: andThen_def split: prod.splits sum.splits)

lemma Open_load_deleteFragments:
  "Open_load env p v nv = (Inr s, env') \<Longrightarrow> deleteFragments s = []"
  by (auto simp: Open_load_def Let_def NewSpace_def dest!: andThen_Inr)

lemma Open_deleteFragments:
  "Open env p op = (Inr s, env') \<Longrightarrow> deleteFragments s = []"
  unfolding Open_def
  by (auto simp: Let_def NewSpace_def split: if_splits option.splits prod.splits
      dest!: andThen_Inr Open_load_deleteFragments)

text \<open>The space of the scenario is the one that \<open>Open\<close> creates on the empty filesystem.\<close>

lemma Open_scenario:
  "fst (Open scenario_env ''/tmp/s1'' \<lparr> opt_Schema = Some scenario_schema, opt_Version = - 1 \<rparr>) =
     Inr scenario_space"
  by (simp add: Open_def Open_load_def findAllManifest_def safeSaveManifest_def
      path_defs env_defs manifest_defs scenario_defs Let_def)

end
